theory Spec2Isabelle
  imports Main
begin

section \<open>S3Cache: a cachelib backend over an S3 bucket\<close>

text \<open>
  The development embeds \<^verbatim>\<open>src/s3cache/s3cache.py\<close>. The class \<^verbatim>\<open>S3Cache\<close> owns no
  data of its own: every method is a short sequence of calls to the boto3 client, to
  \<^verbatim>\<open>pickle\<close> and to \<^verbatim>\<open>logging\<close>. The client and the pickle module are libraries, so
  they are parameters of the model: the client is a record of four methods over an arbitrary
  world \<open>'w\<close>, the pickle module a record of \<open>dump\<close> and \<open>load\<close>. Every method of the
  class is a function from the state before the call to the outcome and the state after it.
\<close>

subsection \<open>Python values, raised exceptions, log records\<close>

text \<open>
  The values handed to the cache. \<open>PyObject i\<close> is an instance of a class that defines
  no \<^verbatim>\<open>__eq__\<close>, with identity \<open>i\<close>: it is equal to itself and to no other instance.
\<close>

datatype pyval =
    PyNone
  | PyBool bool
  | PyInt int
  | PyStr string
  | PyList "pyval list"
  | PyDict "(pyval \<times> pyval) list"
  | PyObject string

type_synonym bytes = string

text \<open>
  What a call can raise. \<open>Exception c\<close> is an instance of a class \<open>c\<close> derived from
  \<^verbatim>\<open>Exception\<close>: the clause \<^verbatim>\<open>except Exception\<close> catches it. \<open>SystemExiting c\<close> is an
  instance of a class derived from \<^verbatim>\<open>BaseException\<close> only (\<^verbatim>\<open>KeyboardInterrupt\<close>,
  \<^verbatim>\<open>SystemExit\<close>, \<^verbatim>\<open>GeneratorExit\<close>): that clause lets it through.
\<close>

datatype py_exception = Exception string | SystemExiting string

fun exc_name :: "py_exception \<Rightarrow> string" where
  "exc_name (Exception c) = c"
| "exc_name (SystemExiting c) = c"

datatype log_level = WARNING | ERROR

type_synonym log_record = "log_level \<times> string"

text \<open>Keyword arguments and \<^verbatim>\<open>ExtraArgs\<close> dictionaries, as association lists.\<close>

type_synonym extra_args = "(string \<times> pyval) list"

subsection \<open>The collaborators: boto3 client, pickle, key prefix\<close>

text \<open>
  The four client methods the class calls. \<open>download_fileobj\<close> returns the bytes it wrote
  into the file object; \<open>delete_objects\<close> takes the bucket and the keys of the
  \<^verbatim>\<open>Delete = {'Objects': [{'Key': ...}]}\<close> argument. The responses of \<open>head_object\<close>,
  \<open>upload_fileobj\<close> and \<open>delete_objects\<close> are never read by the class.
\<close>

record 'w s3_client =
  head_object :: "string \<Rightarrow> string \<Rightarrow> extra_args \<Rightarrow> 'w \<Rightarrow> (py_exception + unit) \<times> 'w"
  download_fileobj :: "string \<Rightarrow> string \<Rightarrow> extra_args \<Rightarrow> 'w \<Rightarrow> (py_exception + bytes) \<times> 'w"
  upload_fileobj :: "bytes \<Rightarrow> string \<Rightarrow> string \<Rightarrow> extra_args \<Rightarrow> 'w \<Rightarrow> (py_exception + unit) \<times> 'w"
  delete_objects :: "string \<Rightarrow> string list \<Rightarrow> 'w \<Rightarrow> (py_exception + unit) \<times> 'w"

record pickle =
  dump :: "pyval \<Rightarrow> py_exception + bytes"
  load :: "bytes \<Rightarrow> py_exception + pyval"

text \<open>
  The constructor argument \<^verbatim>\<open>key_prefix\<close>: a string, or an object with \<^verbatim>\<open>__call__\<close>,
  which may read and change the world and may raise.
\<close>

datatype 'w prefix = Literal string | Callable "'w \<Rightarrow> (py_exception + string) \<times> 'w"

subsection \<open>The class and its state\<close>

record 'w S3Cache =
  default_timeout :: int
  s3_client :: "'w s3_client"
  bucket :: string
  key_prefix_attr :: "'w prefix"
  get_extra_args :: extra_args
  put_extra_args :: extra_args
  head_extra_args :: extra_args

text \<open>The state a method runs in: the world of the collaborators and the records logged.\<close>

record 'w state =
  world :: 'w
  logged :: "log_record list"

type_synonym ('w, 'a) outcome = "(py_exception + 'a) \<times> 'w state"

definition logging_warn :: "string \<Rightarrow> 'w state \<Rightarrow> 'w state" where
  "logging_warn msg s = s\<lparr>logged := logged s @ [(WARNING, msg)]\<rparr>"

definition logging_exception :: "py_exception \<Rightarrow> 'w state \<Rightarrow> 'w state" where
  "logging_exception e s = s\<lparr>logged := logged s @ [(ERROR, exc_name e)]\<rparr>"

text \<open>
  The clause \<^verbatim>\<open>except Exception as e: logging.warn(msg, key); logging.exception(e);
  return r\<close> shared by \<^verbatim>\<open>get\<close>, \<^verbatim>\<open>delete\<close> and \<^verbatim>\<open>set\<close>.
\<close>

definition except_Exception ::
  "py_exception \<Rightarrow> string \<Rightarrow> 'a \<Rightarrow> 'w state \<Rightarrow> ('w, 'a) outcome" where
  "except_Exception e msg r s =
     (case e of
        Exception c \<Rightarrow> (Inr r, logging_exception e (logging_warn msg s))
      | SystemExiting c \<Rightarrow> (Inl e, s))"

subsection \<open>Key derivation and the existence probe\<close>

text \<open>The property \<^verbatim>\<open>key_prefix\<close>: the attribute itself unless it has \<^verbatim>\<open>__call__\<close>.\<close>

definition key_prefix :: "'w S3Cache \<Rightarrow> 'w state \<Rightarrow> ('w, string) outcome" where
  "key_prefix self s =
     (case key_prefix_attr self of
        Literal p \<Rightarrow> (Inr p, s)
      | Callable f \<Rightarrow> (case f (world s) of (r, w') \<Rightarrow> (r, s\<lparr>world := w'\<rparr>)))"

text \<open>\<^verbatim>\<open>'%s%s' % (self.key_prefix, key)\<close>\<close>

definition full_s3_key :: "'w S3Cache \<Rightarrow> string \<Rightarrow> 'w state \<Rightarrow> ('w, string) outcome" where
  "full_s3_key self key s =
     (case key_prefix self s of
        (Inl e, s') \<Rightarrow> (Inl e, s')
      | (Inr p, s') \<Rightarrow> (Inr (p @ key), s'))"

text \<open>
  \<^verbatim>\<open>head_object(Bucket=..., Key=..., **self.head_extra_args)\<close> raises \<^verbatim>\<open>TypeError\<close>
  before the client runs when the dictionary repeats a keyword given by name.
\<close>

definition repeats_keyword :: "extra_args \<Rightarrow> bool" where
  "repeats_keyword kw = (''Bucket'' \<in> fst ` set kw \<or> ''Key'' \<in> fst ` set kw)"

text \<open>
  \<^verbatim>\<open>_key_exists\<close>: the whole call, the evaluation of its arguments included, is inside
  \<^verbatim>\<open>try\<close>; \<^verbatim>\<open>except Exception: return False\<close>, \<^verbatim>\<open>else: return True\<close>.
\<close>

definition key_exists :: "'w S3Cache \<Rightarrow> string \<Rightarrow> 'w state \<Rightarrow> ('w, bool) outcome" where
  "key_exists self key s =
     (case full_s3_key self key s of
        (Inl e, s1) \<Rightarrow>
          (case e of Exception c \<Rightarrow> (Inr False, s1) | SystemExiting c \<Rightarrow> (Inl e, s1))
      | (Inr fk, s1) \<Rightarrow>
          if repeats_keyword (head_extra_args self) then (Inr False, s1)
          else
            (case head_object (s3_client self) (bucket self) fk (head_extra_args self) (world s1) of
               (Inl e, w2) \<Rightarrow>
                 (case e of
                    Exception c \<Rightarrow> (Inr False, s1\<lparr>world := w2\<rparr>)
                  | SystemExiting c \<Rightarrow> (Inl e, s1\<lparr>world := w2\<rparr>))
             | (Inr u, w2) \<Rightarrow> (Inr True, s1\<lparr>world := w2\<rparr>)))"

subsection \<open>The cache methods\<close>

text \<open>
  \<^verbatim>\<open>get\<close>: the download is inside \<^verbatim>\<open>try\<close>; \<^verbatim>\<open>value_file.seek(0); return
  pickle.load(value_file)\<close> is the \<^verbatim>\<open>else\<close> suite of that \<^verbatim>\<open>try\<close>, which the
  \<^verbatim>\<open>except\<close> clause does not cover.
\<close>

definition get :: "pickle \<Rightarrow> 'w S3Cache \<Rightarrow> string \<Rightarrow> 'w state \<Rightarrow> ('w, pyval) outcome" where
  "get pk self key s =
     (case key_exists self key s of
        (Inl e, s1) \<Rightarrow> (Inl e, s1)
      | (Inr exists, s1) \<Rightarrow>
          if \<not> exists then (Inr PyNone, s1)
          else
            (case full_s3_key self key s1 of
               (Inl e, s2) \<Rightarrow> except_Exception e (''Error while trying to get key '' @ key) PyNone s2
             | (Inr fk, s2) \<Rightarrow>
                 (case download_fileobj (s3_client self) (bucket self) fk (get_extra_args self) (world s2) of
                    (Inl e, w3) \<Rightarrow>
                      except_Exception e (''Error while trying to get key '' @ key) PyNone
                        (s2\<lparr>world := w3\<rparr>)
                  | (Inr value_file, w3) \<Rightarrow>
                      (case load pk value_file of
                         Inl e \<Rightarrow> (Inl e, s2\<lparr>world := w3\<rparr>)
                       | Inr v \<Rightarrow> (Inr v, s2\<lparr>world := w3\<rparr>)))))"

definition delete :: "'w S3Cache \<Rightarrow> string \<Rightarrow> 'w state \<Rightarrow> ('w, bool) outcome" where
  "delete self key s =
     (case key_exists self key s of
        (Inl e, s1) \<Rightarrow> (Inl e, s1)
      | (Inr exists, s1) \<Rightarrow>
          if \<not> exists then (Inr False, s1)
          else
            (case full_s3_key self key s1 of
               (Inl e, s2) \<Rightarrow> except_Exception e (''Error while trying to delete key '' @ key) False s2
             | (Inr fk, s2) \<Rightarrow>
                 (case delete_objects (s3_client self) (bucket self) [fk] (world s2) of
                    (Inl e, w3) \<Rightarrow>
                      except_Exception e (''Error while trying to delete key '' @ key) False
                        (s2\<lparr>world := w3\<rparr>)
                  | (Inr u, w3) \<Rightarrow> (Inr True, s2\<lparr>world := w3\<rparr>))))"

text \<open>
  \<^verbatim>\<open>set\<close> (named \<open>set_op\<close>, \<open>set\<close> being the set of a list in HOL): \<^verbatim>\<open>pickle.dump\<close>
  runs before the \<^verbatim>\<open>try\<close>; the upload and the evaluation of its arguments are inside
  it. The argument \<open>timeout\<close> is not read.
\<close>

definition set_op ::
  "pickle \<Rightarrow> 'w S3Cache \<Rightarrow> string \<Rightarrow> pyval \<Rightarrow> int option \<Rightarrow> 'w state \<Rightarrow> ('w, bool) outcome" where
  "set_op pk self key val timeout s =
     (case dump pk val of
        Inl e \<Rightarrow> (Inl e, s)
      | Inr value_file \<Rightarrow>
          (case full_s3_key self key s of
             (Inl e, s1) \<Rightarrow> except_Exception e (''Error while trying to set key '' @ key) False s1
           | (Inr fk, s1) \<Rightarrow>
               (case upload_fileobj (s3_client self) value_file (bucket self) fk (put_extra_args self)
                       (world s1) of
                  (Inl e, w2) \<Rightarrow>
                    except_Exception e (''Error while trying to set key '' @ key) False
                      (s1\<lparr>world := w2\<rparr>)
                | (Inr u, w2) \<Rightarrow> (Inr True, s1\<lparr>world := w2\<rparr>))))"

definition add ::
  "pickle \<Rightarrow> 'w S3Cache \<Rightarrow> string \<Rightarrow> pyval \<Rightarrow> int option \<Rightarrow> 'w state \<Rightarrow> ('w, bool) outcome" where
  "add pk self key val timeout s =
     (case key_exists self key s of
        (Inl e, s1) \<Rightarrow> (Inl e, s1)
      | (Inr exists, s1) \<Rightarrow>
          if exists then (Inr False, s1)
          else set_op pk self key val timeout s1)"

definition clear :: "'w S3Cache \<Rightarrow> 'w state \<Rightarrow> ('w, bool) outcome" where
  "clear self s = (Inr False, s)"

subsection \<open>An in-memory bucket standing for the storage service\<close>

text \<open>
  The boto3 client is a library, so the properties that speak of what is stored are stated
  over a fake client that keeps the objects of all buckets in a map, captures every request
  it receives, and raises on demand: \<open>faults\<close> scripts the coming calls, one entry per
  call, \<open>Some e\<close> making the call raise \<open>e\<close> without touching the objects (a permission or
  network failure), \<open>None\<close> or an exhausted script letting it through. Without a fault,
  \<open>head_object\<close> and \<open>download_fileobj\<close> raise \<^verbatim>\<open>ClientError\<close> on a missing object,
  \<open>upload_fileobj\<close> replaces the object and \<open>delete_objects\<close> removes the listed keys.
\<close>

datatype request =
    HeadObject string string extra_args
  | DownloadFileobj string string extra_args
  | UploadFileobj bytes string string extra_args
  | DeleteObjects string "string list"

fun request_keys :: "request \<Rightarrow> string list" where
  "request_keys (HeadObject b k x) = [k]"
| "request_keys (DownloadFileobj b k x) = [k]"
| "request_keys (UploadFileobj d b k x) = [k]"
| "request_keys (DeleteObjects b ks) = ks"

record fake_s3 =
  objects :: "string \<times> string \<Rightarrow> bytes option"
  faults :: "py_exception option list"
  requests :: "request list"

definition receive :: "request \<Rightarrow> fake_s3 \<Rightarrow> py_exception option \<times> fake_s3" where
  "receive r w =
     (case faults w of
        [] \<Rightarrow> (None, w\<lparr>requests := requests w @ [r]\<rparr>)
      | f # fs \<Rightarrow> (f, w\<lparr>faults := fs, requests := requests w @ [r]\<rparr>))"

definition fake_head_object ::
  "string \<Rightarrow> string \<Rightarrow> extra_args \<Rightarrow> fake_s3 \<Rightarrow> (py_exception + unit) \<times> fake_s3" where
  "fake_head_object b k x w =
     (case receive (HeadObject b k x) w of
        (Some e, w') \<Rightarrow> (Inl e, w')
      | (None, w') \<Rightarrow>
          (case objects w' (b, k) of
             None \<Rightarrow> (Inl (Exception ''ClientError''), w')
           | Some d \<Rightarrow> (Inr (), w')))"

definition fake_download_fileobj ::
  "string \<Rightarrow> string \<Rightarrow> extra_args \<Rightarrow> fake_s3 \<Rightarrow> (py_exception + bytes) \<times> fake_s3" where
  "fake_download_fileobj b k x w =
     (case receive (DownloadFileobj b k x) w of
        (Some e, w') \<Rightarrow> (Inl e, w')
      | (None, w') \<Rightarrow>
          (case objects w' (b, k) of
             None \<Rightarrow> (Inl (Exception ''ClientError''), w')
           | Some d \<Rightarrow> (Inr d, w')))"

definition fake_upload_fileobj ::
  "bytes \<Rightarrow> string \<Rightarrow> string \<Rightarrow> extra_args \<Rightarrow> fake_s3 \<Rightarrow> (py_exception + unit) \<times> fake_s3" where
  "fake_upload_fileobj d b k x w =
     (case receive (UploadFileobj d b k x) w of
        (Some e, w') \<Rightarrow> (Inl e, w')
      | (None, w') \<Rightarrow> (Inr (), w'\<lparr>objects := (objects w')((b, k) \<mapsto> d)\<rparr>))"

definition fake_delete_objects ::
  "string \<Rightarrow> string list \<Rightarrow> fake_s3 \<Rightarrow> (py_exception + unit) \<times> fake_s3" where
  "fake_delete_objects b ks w =
     (case receive (DeleteObjects b ks) w of
        (Some e, w') \<Rightarrow> (Inl e, w')
      | (None, w') \<Rightarrow>
          (Inr (), w'\<lparr>objects := (\<lambda>(b', k'). if b' = b \<and> k' \<in> set ks then None
                                              else objects w' (b', k'))\<rparr>))"

definition fake_client :: "fake_s3 s3_client" where
  "fake_client =
     \<lparr>head_object = fake_head_object, download_fileobj = fake_download_fileobj,
      upload_fileobj = fake_upload_fileobj, delete_objects = fake_delete_objects\<rparr>"

text \<open>The next \<open>n\<close> calls of the fake client meet no scripted fault.\<close>

definition quiet :: "nat \<Rightarrow> fake_s3 \<Rightarrow> bool" where
  "quiet n w = list_all (\<lambda>f. f = None) (take n (faults w))"

text \<open>
  The prefix is \<open>p\<close> at every evaluation: a literal \<open>p\<close>, or a callable that returns \<open>p\<close>
  and leaves the world as it is.
\<close>

definition stable_prefix :: "'w S3Cache \<Rightarrow> string \<Rightarrow> bool" where
  "stable_prefix self p =
     (case key_prefix_attr self of
        Literal q \<Rightarrow> q = p
      | Callable f \<Rightarrow> (\<forall>w. f w = (Inr p, w)))"

subsection \<open>Fixtures\<close>

text \<open>
  A stand-in for the pickle module that knows the values of a table: \<open>dump\<close> raises
  \<^verbatim>\<open>PicklingError\<close> on any other value, \<open>load\<close> raises \<^verbatim>\<open>UnpicklingError\<close> on any
  other payload.
\<close>

definition table_pickle :: "(pyval \<times> bytes) list \<Rightarrow> pickle" where
  "table_pickle tab =
     \<lparr>dump = (\<lambda>v. case map_of tab v of
                     None \<Rightarrow> Inl (Exception ''PicklingError'')
                   | Some d \<Rightarrow> Inr d),
      load = (\<lambda>d. case map_of (map (\<lambda>(v, d'). (d', v)) tab) d of
                     None \<Rightarrow> Inl (Exception ''UnpicklingError'')
                   | Some v \<Rightarrow> Inr v)\<rparr>"

definition small_pickle :: pickle where
  "small_pickle =
     table_pickle
       [(PyNone, ''N.''),
        (PyDict [(PyStr ''x'', PyInt 1)], ''(dVx|I1|s.''),
        (PyStr ''first'', ''Vfirst|.''),
        (PyStr ''second'', ''Vsecond|.'')]"

text \<open>
  The pickle module on instances of a class without \<^verbatim>\<open>__eq__\<close>: \<open>dump\<close> writes the
  class and the attributes, not the identity, and \<open>load\<close> builds a new instance.
\<close>

definition instance_pickle :: pickle where
  "instance_pickle =
     \<lparr>dump = (\<lambda>v. case v of
                     PyObject i \<Rightarrow> Inr ''ccopy_reg|_reconstructor|.''
                   | _ \<Rightarrow> Inl (Exception ''PicklingError'')),
      load = (\<lambda>d. Inr (PyObject ''0x7f02''))\<rparr>"

text \<open>The cache of the scenario: bucket \<open>bkt\<close>, prefix \<open>cache/\<close>, over the fake client.\<close>

definition scenario_cache :: "fake_s3 S3Cache" where
  "scenario_cache =
     \<lparr>default_timeout = 300, s3_client = fake_client, bucket = ''bkt'',
      key_prefix_attr = Literal ''cache/'', get_extra_args = [], put_extra_args = [],
      head_extra_args = []\<rparr>"

definition empty_bucket :: "fake_s3 state" where
  "empty_bucket = \<lparr>world = \<lparr>objects = Map.empty, faults = [], requests = []\<rparr>, logged = []\<rparr>"

definition scenario_value :: pyval where
  "scenario_value = PyDict [(PyStr ''x'', PyInt 1)]"

text \<open>The empty bucket whose next call fails on the network.\<close>

definition flaky_bucket :: "fake_s3 state" where
  "flaky_bucket =
     \<lparr>world = \<lparr>objects = Map.empty, faults = [Some (Exception ''EndpointConnectionError'')],
               requests = []\<rparr>,
      logged = []\<rparr>"

text \<open>A bucket whose object \<open>cache/abc\<close> was not written by pickle.\<close>

definition foreign_bucket :: "fake_s3 state" where
  "foreign_bucket =
     \<lparr>world = \<lparr>objects = [(''bkt'', ''cache/abc'') \<mapsto> ''<html>''], faults = [], requests = []\<rparr>,
      logged = []\<rparr>"


definition after_set :: "fake_s3 state" where
  "after_set = snd (set_op small_pickle scenario_cache ''abc'' scenario_value None empty_bucket)"

text \<open>
  The scenario cache with a callable prefix that changes once the client has received a
  request, and a bucket that holds \<open>old/abc\<close>.
\<close>

definition swapping_cache :: "fake_s3 S3Cache" where
  "swapping_cache =
     scenario_cache\<lparr>key_prefix_attr :=
       Callable (\<lambda>w. (Inr (if requests w = [] then ''old/'' else ''new/''), w))\<rparr>"

definition old_bucket :: "fake_s3 state" where
  "old_bucket =
     \<lparr>world = \<lparr>objects = [(''bkt'', ''old/abc'') \<mapsto> ''N.''], faults = [], requests = []\<rparr>,
      logged = []\<rparr>"

text \<open>
  A bucket that holds \<open>cache/abc\<close> while the next call fails on the network, and the same
  bucket once that call has been received.
\<close>

definition unreachable_bucket :: "fake_s3 state" where
  "unreachable_bucket =
     \<lparr>world = \<lparr>objects = [(''bkt'', ''cache/abc'') \<mapsto> ''N.''],
               faults = [Some (Exception ''EndpointConnectionError'')], requests = []\<rparr>,
      logged = []\<rparr>"

definition probed_bucket :: "fake_s3 state" where
  "probed_bucket =
     \<lparr>world = \<lparr>objects = [(''bkt'', ''cache/abc'') \<mapsto> ''N.''], faults = [],
               requests = [HeadObject ''bkt'' ''cache/abc'' []]\<rparr>,
      logged = []\<rparr>"

subsection \<open>Notions used in the statements\<close>

text \<open>
  \<open>served r w\<close> is the fake world after it took the request \<open>r\<close> and consumed one entry
  of the script; \<open>sent_by s s'\<close> lists the requests the client received between the
  states \<open>s\<close> and \<open>s'\<close>, in the order it received them; \<open>discreet self\<close> says that a
  callable prefix sends nothing to the client itself.
\<close>

definition served :: "request \<Rightarrow> fake_s3 \<Rightarrow> fake_s3" where
  "served r w = w\<lparr>faults := tl (faults w), requests := requests w @ [r]\<rparr>"

definition sent_by :: "fake_s3 state \<Rightarrow> fake_s3 state \<Rightarrow> request list" where
  "sent_by s s' = drop (length (requests (world s))) (requests (world s'))"

definition discreet :: "fake_s3 S3Cache \<Rightarrow> bool" where
  "discreet self =
     (case key_prefix_attr self of
        Literal p \<Rightarrow> True
      | Callable f \<Rightarrow> (\<forall>w. requests (snd (f w)) = requests w))"

lemmas model_defs =
  get_def delete_def set_op_def add_def key_exists_def full_s3_key_def key_prefix_def
  except_Exception_def logging_warn_def logging_exception_def repeats_keyword_def
  fake_client_def fake_head_object_def fake_download_fileobj_def fake_upload_fileobj_def
  fake_delete_objects_def receive_def quiet_def stable_prefix_def sent_by_def
  table_pickle_def small_pickle_def scenario_cache_def scenario_value_def empty_bucket_def
  after_set_def

section \<open>Properties\<close>

subsection \<open>The fake client\<close>

lemma receive_quiet: "quiet (Suc n) w \<Longrightarrow> receive r w = (None, served r w)"
  by (cases "faults w") (simp_all add: quiet_def receive_def served_def)

lemma quiet_served: "quiet (Suc n) w \<Longrightarrow> quiet n (served r w)"
  by (cases "faults w") (simp_all add: quiet_def served_def)

lemma objects_served [simp]: "objects (served r w) = objects w"
  by (simp add: served_def)

lemma requests_served [simp]: "requests (served r w) = requests w @ [r]"
  by (simp add: served_def)

lemma quiet_objects_update [simp]: "quiet n (w\<lparr>objects := m\<rparr>) = quiet n w"
  by (simp add: quiet_def)

lemma full_s3_key_stable:
  "stable_prefix self p \<Longrightarrow> full_s3_key self k s = (Inr (p @ k), s)"
  by (cases "key_prefix_attr self") (simp_all add: stable_prefix_def full_s3_key_def key_prefix_def)

lemma key_exists_fake:
  assumes "s3_client self = fake_client" "stable_prefix self p"
    "\<not> repeats_keyword (head_extra_args self)" "quiet (Suc n) (world s)"
  shows "key_exists self k s =
           (Inr (objects (world s) (bucket self, p @ k) \<noteq> None),
            s\<lparr>world := served (HeadObject (bucket self) (p @ k) (head_extra_args self)) (world s)\<rparr>)"
  using assms
  by (cases "objects (world s) (bucket self, p @ k)")
     (simp_all add: key_exists_def full_s3_key_stable fake_client_def fake_head_object_def
        receive_quiet [where n = n])

lemma get_fake_absent:
  assumes "s3_client self = fake_client" "stable_prefix self p"
    "\<not> repeats_keyword (head_extra_args self)" "quiet (Suc n) (world s)"
    "objects (world s) (bucket self, p @ k) = None"
  shows "fst (get pk self k s) = Inr PyNone"
  using assms by (simp add: get_def key_exists_fake [where n = n])

lemma delete_fake_absent:
  assumes "s3_client self = fake_client" "stable_prefix self p"
    "\<not> repeats_keyword (head_extra_args self)" "quiet (Suc n) (world s)"
    "objects (world s) (bucket self, p @ k) = None"
  shows "fst (delete self k s) = Inr False"
  using assms by (simp add: delete_def key_exists_fake [where n = n])

lemma get_fake_present:
  assumes "s3_client self = fake_client" "stable_prefix self p"
    "\<not> repeats_keyword (head_extra_args self)" "quiet (Suc (Suc n)) (world s)"
    "objects (world s) (bucket self, p @ k) = Some d"
  shows "fst (get pk self k s) = load pk d"
proof -
  let ?w1 = "served (HeadObject (bucket self) (p @ k) (head_extra_args self)) (world s)"
  have q1: "quiet (Suc n) ?w1"
    using assms(4) by (rule quiet_served)
  have probe: "key_exists self k s = (Inr True, s\<lparr>world := ?w1\<rparr>)"
    using assms by (simp add: key_exists_fake [where n = "Suc n"])
  show ?thesis
    using assms(1,2,5)
    by (cases "load pk d")
       (simp_all add: get_def probe full_s3_key_stable fake_client_def
          fake_download_fileobj_def receive_quiet [OF q1])
qed

lemma delete_fake_present:
  assumes "s3_client self = fake_client" "stable_prefix self p"
    "\<not> repeats_keyword (head_extra_args self)" "quiet (Suc (Suc n)) (world s)"
    "objects (world s) (bucket self, p @ k) = Some d"
  shows "\<exists>s2. delete self k s = (Inr True, s2) \<and> objects (world s2) (bucket self, p @ k) = None
            \<and> quiet n (world s2)"
proof -
  let ?w1 = "served (HeadObject (bucket self) (p @ k) (head_extra_args self)) (world s)"
  let ?w2 = "served (DeleteObjects (bucket self) [p @ k]) ?w1"
  have q1: "quiet (Suc n) ?w1"
    using assms(4) by (rule quiet_served)
  have q2: "quiet n ?w2"
    using q1 by (rule quiet_served)
  have probe: "key_exists self k s = (Inr True, s\<lparr>world := ?w1\<rparr>)"
    using assms by (simp add: key_exists_fake [where n = "Suc n"])
  show ?thesis
    using assms(1,2) q2
    by (simp add: delete_def probe full_s3_key_stable fake_client_def
          fake_delete_objects_def receive_quiet [OF q1])
qed

lemma except_Exception_True: "except_Exception e msg False s \<noteq> (Inr True, s')"
  by (cases e) (simp_all add: except_Exception_def)

lemma set_op_fake_True:
  assumes "s3_client self = fake_client" "stable_prefix self p"
    "set_op pk self k v t s = (Inr True, s1)"
  shows "\<exists>d. dump pk v = Inr d \<and> objects (world s1) (bucket self, p @ k) = Some d"
  using assms
  by (auto simp: set_op_def full_s3_key_stable fake_client_def fake_upload_fileobj_def
        except_Exception_True split: sum.splits prod.splits option.splits)

lemma set_op_fake_quiet:
  assumes "s3_client self = fake_client" "stable_prefix self p"
    "quiet (Suc n) (world s)" "dump pk v = Inr d"
  shows "\<exists>s1. set_op pk self k v t s = (Inr True, s1)
            \<and> objects (world s1) = (objects (world s))((bucket self, p @ k) \<mapsto> d)
            \<and> quiet n (world s1)"
  using assms(1,2,4) quiet_served [OF assms(3)]
  by (simp add: set_op_def full_s3_key_stable fake_client_def fake_upload_fileobj_def
        receive_quiet [OF assms(3)])





subsection \<open>Requests captured by the fake client\<close>

lemma receive_requests: "receive r w = (f, w') \<Longrightarrow> requests w' = requests w @ [r]"
  by (auto simp: receive_def split: list.splits)

lemma fake_head_object_requests:
  "fake_head_object b fk x w = (r, w') \<Longrightarrow> requests w' = requests w @ [HeadObject b fk x]"
  by (auto simp: fake_head_object_def split: prod.splits option.splits dest: receive_requests)

lemma fake_download_fileobj_requests:
  "fake_download_fileobj b fk x w = (r, w') \<Longrightarrow> requests w' = requests w @ [DownloadFileobj b fk x]"
  by (auto simp: fake_download_fileobj_def split: prod.splits option.splits dest: receive_requests)

lemma fake_upload_fileobj_requests:
  "fake_upload_fileobj d b fk x w = (r, w') \<Longrightarrow> requests w' = requests w @ [UploadFileobj d b fk x]"
  by (auto simp: fake_upload_fileobj_def split: prod.splits option.splits dest: receive_requests)

lemma fake_delete_objects_requests:
  "fake_delete_objects b ks w = (r, w') \<Longrightarrow> requests w' = requests w @ [DeleteObjects b ks]"
  by (auto simp: fake_delete_objects_def split: prod.splits option.splits dest: receive_requests)

lemma world_except_Exception [simp]: "world (snd (except_Exception e msg r s)) = world s"
  by (cases e) (simp_all add: except_Exception_def logging_warn_def logging_exception_def)

lemma key_prefix_discreet:
  assumes "discreet self" "key_prefix self s = (r, s1)"
  shows "requests (world s1) = requests (world s)"
proof (cases "key_prefix_attr self")
  case (Literal p)
  with assms(2) show ?thesis
    by (auto simp: key_prefix_def)
next
  case (Callable f)
  have "requests (snd (f (world s))) = requests (world s)"
    using assms(1) Callable by (simp add: discreet_def)
  with assms(2) Callable show ?thesis
    by (auto simp: key_prefix_def split: prod.splits)
qed

lemma full_s3_key_of_prefix:
  "key_prefix self s = (Inr p, s0) \<Longrightarrow> full_s3_key self k s = (Inr (p @ k), s0)"
  by (simp add: full_s3_key_def)

lemma sent_by_append:
  "requests (world s') = requests (world s) @ rs \<Longrightarrow> sent_by s s' = rs"
  by (simp add: sent_by_def)

lemma key_exists_sent:
  assumes "s3_client self = fake_client" "\<not> repeats_keyword (head_extra_args self)"
    "key_prefix self s = (Inr p, s0)"
  shows "requests (world (snd (key_exists self k s)))
           = requests (world s0) @ [HeadObject (bucket self) (p @ k) (head_extra_args self)]"
  using assms
  by (auto simp: key_exists_def full_s3_key_of_prefix fake_client_def
        split: prod.splits sum.splits py_exception.splits
        dest!: fake_head_object_requests)

lemma set_op_sent:
  assumes "s3_client self = fake_client" "dump pk v = Inr d" "key_prefix self s = (Inr p, s0)"
  shows "requests (world (snd (set_op pk self k v t s)))
           = requests (world s0) @ [UploadFileobj d (bucket self) (p @ k) (put_extra_args self)]"
  using assms
  by (auto simp: set_op_def full_s3_key_of_prefix fake_client_def
        split: prod.splits sum.splits
        dest!: fake_upload_fileobj_requests)

lemma get_sent:
  assumes "s3_client self = fake_client" "key_exists self k s = (Inr True, s1)"
    "key_prefix self s1 = (Inr p, s2)"
  shows "requests (world (snd (get pk self k s)))
           = requests (world s2) @ [DownloadFileobj (bucket self) (p @ k) (get_extra_args self)]"
  using assms
  by (auto simp: get_def full_s3_key_of_prefix fake_client_def
        split: prod.splits sum.splits
        dest!: fake_download_fileobj_requests)

lemma delete_sent:
  assumes "s3_client self = fake_client" "key_exists self k s = (Inr True, s1)"
    "key_prefix self s1 = (Inr p, s2)"
  shows "requests (world (snd (delete self k s)))
           = requests (world s2) @ [DeleteObjects (bucket self) [p @ k]]"
  using assms
  by (auto simp: delete_def full_s3_key_of_prefix fake_client_def
        split: prod.splits sum.splits
        dest!: fake_delete_objects_requests)

subsection \<open>The scenario cache\<close>

lemma scenario_cache_fake: "s3_client scenario_cache = fake_client"
  by (simp add: scenario_cache_def)

lemma scenario_cache_prefix: "stable_prefix scenario_cache ''cache/''"
  by (simp add: stable_prefix_def scenario_cache_def)

lemma scenario_cache_keywords: "\<not> repeats_keyword (head_extra_args scenario_cache)"
  by (simp add: repeats_keyword_def scenario_cache_def)

lemma scenario_cache_discreet: "discreet scenario_cache"
  by (simp add: discreet_def scenario_cache_def)

lemma swapping_cache_fake: "s3_client swapping_cache = fake_client"
  by (simp add: swapping_cache_def scenario_cache_def)

lemma swapping_cache_discreet: "discreet swapping_cache"
  by (simp add: discreet_def swapping_cache_def scenario_cache_def)

lemma swapping_cache_keywords: "\<not> repeats_keyword (head_extra_args swapping_cache)"
  by (simp add: repeats_keyword_def swapping_cache_def scenario_cache_def)

subsection \<open>Download and decoding in \<open>get\<close>\<close>

lemma get_download_error_is_miss:
  assumes "key_exists self k s = (Inr True, s1)"
    and "full_s3_key self k s1 = (Inr fk, s2)"
    and "download_fileobj (s3_client self) (bucket self) fk (get_extra_args self) (world s2)
           = (Inl (Exception c), w3)"
  shows "fst (get pk self k s) = Inr PyNone"
  using assms by (simp add: get_def except_Exception_def)

lemma get_load_error_raises:
  assumes "key_exists self k s = (Inr True, s1)"
    and "full_s3_key self k s1 = (Inr fk, s2)"
    and "download_fileobj (s3_client self) (bucket self) fk (get_extra_args self) (world s2)
           = (Inr d, w3)"
    and "load pk d = Inl e"
  shows "get pk self k s = (Inl e, s2\<lparr>world := w3\<rparr>)"
  using assms by (simp add: get_def)


section \<open>The claims\<close>

text \<open>
  C1. After a \<open>set\<close> that returned \<open>True\<close>, the bucket holds the payload \<open>dump\<close>
  produced for the value, and \<open>get\<close> of the same key returns whatever value \<open>load\<close>
  yields for that payload. It is the value that was set for the values the pickle module
  carries through a round trip, and for no others. The bucket is the fake client's, the
  prefix is the same at every evaluation, \<open>head_extra_args\<close> repeats no keyword, and the
  two calls \<open>get\<close> makes meet no fault.
\<close>

theorem set_then_get:
  assumes "s3_client self = fake_client"
    and "stable_prefix self p"
    and "\<not> repeats_keyword (head_extra_args self)"
    and "set_op pk self k v t s = (Inr True, s1)"
    and "quiet 2 (world s1)"
  shows "\<exists>d. dump pk v = Inr d
           \<and> objects (world s1) (bucket self, p @ k) = Some d
           \<and> (\<forall>v'. load pk d = Inr v' \<longrightarrow> fst (get pk self k s1) = Inr v')"
proof -
  obtain d where d: "dump pk v = Inr d" "objects (world s1) (bucket self, p @ k) = Some d"
    using set_op_fake_True [OF assms(1,2,4)] by blast
  have "quiet (Suc (Suc 0)) (world s1)"
    using assms(5) by (simp add: numeral_2_eq_2)
  then have "fst (get pk self k s1) = load pk d"
    using assms(1,2,3) d(2) by (simp add: get_fake_present)
  with d show ?thesis
    by simp
qed

theorem set_then_get_witness:
  "fst (set_op small_pickle scenario_cache ''abc'' scenario_value None empty_bucket) = Inr True
   \<and> dump small_pickle scenario_value = Inr ''(dVx|I1|s.''
   \<and> load small_pickle ''(dVx|I1|s.'' = Inr scenario_value
   \<and> fst (get small_pickle scenario_cache ''abc'' after_set) = Inr scenario_value"
proof -
  have ok: "fst (set_op small_pickle scenario_cache ''abc'' scenario_value None empty_bucket)
              = Inr True"
    by (simp add: model_defs)
  then have stored: "set_op small_pickle scenario_cache ''abc'' scenario_value None empty_bucket
              = (Inr True, after_set)"
    by (simp add: prod_eq_iff after_set_def)
  have q: "quiet 2 (world after_set)"
    by (simp add: model_defs)
  have dumped: "dump small_pickle scenario_value = Inr ''(dVx|I1|s.''"
    by (simp add: model_defs)
  have loaded: "load small_pickle ''(dVx|I1|s.'' = Inr scenario_value"
    by (simp add: model_defs)
  obtain d where d: "dump small_pickle scenario_value = Inr d"
      "\<forall>v'. load small_pickle d = Inr v' \<longrightarrow>
         fst (get small_pickle scenario_cache ''abc'' after_set) = Inr v'"
    using set_then_get [OF scenario_cache_fake scenario_cache_prefix
        scenario_cache_keywords stored q]
    by blast
  have "d = ''(dVx|I1|s.''"
    using d(1) dumped by simp
  then have "fst (get small_pickle scenario_cache ''abc'' after_set) = Inr scenario_value"
    using d(2) loaded by blast
  with ok dumped loaded show ?thesis
    by blast
qed

text \<open>
  An instance of a class without \<^verbatim>\<open>__eq__\<close> is stored with success and read back as
  another instance, which is not equal to it.
\<close>

theorem set_then_get_counterexample:
  "fst (set_op instance_pickle scenario_cache ''abc'' (PyObject ''0x7f01'') None empty_bucket)
     = Inr True
   \<and> fst (get instance_pickle scenario_cache ''abc''
            (snd (set_op instance_pickle scenario_cache ''abc'' (PyObject ''0x7f01'') None
                    empty_bucket)))
       = Inr (PyObject ''0x7f02'')
   \<and> PyObject ''0x7f02'' \<noteq> PyObject ''0x7f01''"
  by (simp add: model_defs instance_pickle_def)



text \<open>
  C3. The key of every request is the prefix followed by the cache key, with nothing
  escaped, and the prefix is evaluated anew before each request, not once for each cache
  operation. \<open>key_prefix\<close> is the literal, or the result of the callable in the state it
  left; \<open>_full_s3_key\<close> appends the cache key. On the capturing fake client the requests
  of each method are exactly these, in this order: \<open>set\<close> sends one upload; \<open>get\<close> and
  \<open>delete\<close> send the head request of the probe and, when the probe found the key, a
  download or a deletion whose key comes from a second evaluation of the prefix; \<open>add\<close>
  sends the head request and, when the probe found nothing, the upload of \<open>set\<close>, again
  under a second evaluation. The callable sends nothing to the client itself and
  \<open>head_extra_args\<close> repeats no keyword.
\<close>

theorem key_sent_is_prefix_then_key:
  assumes "s3_client self = fake_client"
    and "discreet self"
    and "\<not> repeats_keyword (head_extra_args self)"
  shows "(key_prefix_attr self = Literal q \<longrightarrow> key_prefix self s = (Inr q, s))
       \<and> (key_prefix_attr self = Callable f \<and> f (world s) = (r, w') \<longrightarrow>
            key_prefix self s = (r, s\<lparr>world := w'\<rparr>))
       \<and> (key_prefix self s = (Inr p, s0) \<longrightarrow> full_s3_key self k s = (Inr (p @ k), s0))
       \<and> (key_prefix self s = (Inr p, s0) \<and> dump pk v = Inr d \<longrightarrow>
            sent_by s (snd (set_op pk self k v t s))
              = [UploadFileobj d (bucket self) (p @ k) (put_extra_args self)])
       \<and> (key_prefix self s = (Inr p, s0) \<and> key_exists self k s = (Inr False, s1) \<longrightarrow>
            sent_by s (snd (get pk self k s))
              = [HeadObject (bucket self) (p @ k) (head_extra_args self)]
          \<and> sent_by s (snd (delete self k s))
              = [HeadObject (bucket self) (p @ k) (head_extra_args self)])
       \<and> (key_prefix self s = (Inr p, s0) \<and> key_exists self k s = (Inr True, s1) \<longrightarrow>
            sent_by s (snd (add pk self k v t s))
              = [HeadObject (bucket self) (p @ k) (head_extra_args self)])
       \<and> (key_prefix self s = (Inr p, s0) \<and> key_exists self k s = (Inr True, s1)
            \<and> key_prefix self s1 = (Inr p', s2) \<longrightarrow>
            sent_by s (snd (get pk self k s))
              = [HeadObject (bucket self) (p @ k) (head_extra_args self),
                 DownloadFileobj (bucket self) (p' @ k) (get_extra_args self)]
          \<and> sent_by s (snd (delete self k s))
              = [HeadObject (bucket self) (p @ k) (head_extra_args self),
                 DeleteObjects (bucket self) [p' @ k]])
       \<and> (key_prefix self s = (Inr p, s0) \<and> key_exists self k s = (Inr False, s1)
            \<and> key_prefix self s1 = (Inr p', s2) \<and> dump pk v = Inr d \<longrightarrow>
            sent_by s (snd (add pk self k v t s))
              = [HeadObject (bucket self) (p @ k) (head_extra_args self),
                 UploadFileobj d (bucket self) (p' @ k) (put_extra_args self)])"
proof -
  have literal: "key_prefix self s = (Inr q, s)" if "key_prefix_attr self = Literal q"
    using that by (simp add: key_prefix_def)
  have callable: "key_prefix self s = (r, s\<lparr>world := w'\<rparr>)"
    if "key_prefix_attr self = Callable f \<and> f (world s) = (r, w')"
    using that by (simp add: key_prefix_def)
  have full: "full_s3_key self k s = (Inr (p @ k), s0)" if "key_prefix self s = (Inr p, s0)"
    using that by (rule full_s3_key_of_prefix)
  have probe: "requests (world s1)
      = requests (world s) @ [HeadObject (bucket self) (p @ k) (head_extra_args self)]"
    if "key_prefix self s = (Inr p, s0)" "key_exists self k s = (b, s1)" for b s1
    using key_exists_sent [OF assms(1,3) that(1), of k] key_prefix_discreet [OF assms(2) that(1)]
      that(2)
    by simp
  have set_sent: "sent_by s (snd (set_op pk self k v t s))
      = [UploadFileobj d (bucket self) (p @ k) (put_extra_args self)]"
    if "key_prefix self s = (Inr p, s0) \<and> dump pk v = Inr d"
    using set_op_sent [OF assms(1), of pk v d s p s0 k t] key_prefix_discreet [OF assms(2), of s]
      that
    by (intro sent_by_append) simp
  have miss: "sent_by s (snd (get pk self k s))
        = [HeadObject (bucket self) (p @ k) (head_extra_args self)]
      \<and> sent_by s (snd (delete self k s))
        = [HeadObject (bucket self) (p @ k) (head_extra_args self)]"
    if "key_prefix self s = (Inr p, s0) \<and> key_exists self k s = (Inr False, s1)"
    using probe [of "Inr False" s1] that
    by (simp add: get_def delete_def sent_by_append)
  have add_hit: "sent_by s (snd (add pk self k v t s))
        = [HeadObject (bucket self) (p @ k) (head_extra_args self)]"
    if "key_prefix self s = (Inr p, s0) \<and> key_exists self k s = (Inr True, s1)"
    using probe [of "Inr True" s1] that
    by (simp add: add_def sent_by_append)
  have hit: "sent_by s (snd (get pk self k s))
        = [HeadObject (bucket self) (p @ k) (head_extra_args self),
           DownloadFileobj (bucket self) (p' @ k) (get_extra_args self)]
      \<and> sent_by s (snd (delete self k s))
        = [HeadObject (bucket self) (p @ k) (head_extra_args self),
           DeleteObjects (bucket self) [p' @ k]]"
    if h: "key_prefix self s = (Inr p, s0) \<and> key_exists self k s = (Inr True, s1)
      \<and> key_prefix self s1 = (Inr p', s2)"
  proof -
    have one: "requests (world s2)
        = requests (world s) @ [HeadObject (bucket self) (p @ k) (head_extra_args self)]"
      using probe [of "Inr True" s1] key_prefix_discreet [OF assms(2), of s1 "Inr p'" s2] h by simp
    have found: "key_exists self k s = (Inr True, s1)" and again: "key_prefix self s1 = (Inr p', s2)"
      using h by simp_all
    have "requests (world (snd (get pk self k s)))
        = requests (world s2) @ [DownloadFileobj (bucket self) (p' @ k) (get_extra_args self)]"
      using assms(1) found again by (rule get_sent)
    moreover have "requests (world (snd (delete self k s)))
        = requests (world s2) @ [DeleteObjects (bucket self) [p' @ k]]"
      using assms(1) found again by (rule delete_sent)
    ultimately show ?thesis
      using one by (simp add: sent_by_append)
  qed
  have add_miss: "sent_by s (snd (add pk self k v t s))
        = [HeadObject (bucket self) (p @ k) (head_extra_args self),
           UploadFileobj d (bucket self) (p' @ k) (put_extra_args self)]"
    if h: "key_prefix self s = (Inr p, s0) \<and> key_exists self k s = (Inr False, s1)
      \<and> key_prefix self s1 = (Inr p', s2) \<and> dump pk v = Inr d"
  proof -
    have one: "requests (world s2)
        = requests (world s) @ [HeadObject (bucket self) (p @ k) (head_extra_args self)]"
      using probe [of "Inr False" s1] key_prefix_discreet [OF assms(2), of s1 "Inr p'" s2] h by simp
    have "add pk self k v t s = set_op pk self k v t s1"
      using h by (simp add: add_def)
    moreover have "requests (world (snd (set_op pk self k v t s1)))
        = requests (world s2) @ [UploadFileobj d (bucket self) (p' @ k) (put_extra_args self)]"
      using h by (intro set_op_sent [OF assms(1)]) simp_all
    ultimately show ?thesis
      using one by (simp add: sent_by_append)
  qed
  from literal callable full set_sent miss add_hit hit add_miss show ?thesis
    by blast
qed

theorem key_sent_is_prefix_then_key_witness:
  "key_prefix scenario_cache empty_bucket = (Inr ''cache/'', empty_bucket)
   \<and> key_prefix swapping_cache old_bucket = (Inr ''old/'', old_bucket)
   \<and> full_s3_key scenario_cache ''abc'' empty_bucket = (Inr ''cache/abc'', empty_bucket)
   \<and> sent_by empty_bucket
        (snd (set_op small_pickle scenario_cache ''abc'' scenario_value None empty_bucket))
       = [UploadFileobj ''(dVx|I1|s.'' ''bkt'' ''cache/abc'' []]
   \<and> sent_by empty_bucket (snd (get small_pickle scenario_cache ''abc'' empty_bucket))
       = [HeadObject ''bkt'' ''cache/abc'' []]
   \<and> sent_by empty_bucket (snd (delete scenario_cache ''abc'' empty_bucket))
       = [HeadObject ''bkt'' ''cache/abc'' []]
   \<and> sent_by empty_bucket
        (snd (add small_pickle scenario_cache ''abc'' scenario_value None empty_bucket))
       = [HeadObject ''bkt'' ''cache/abc'' [],
          UploadFileobj ''(dVx|I1|s.'' ''bkt'' ''cache/abc'' []]
   \<and> sent_by old_bucket (snd (get small_pickle swapping_cache ''abc'' old_bucket))
       = [HeadObject ''bkt'' ''old/abc'' [], DownloadFileobj ''bkt'' ''new/abc'' []]
   \<and> sent_by old_bucket (snd (delete swapping_cache ''abc'' old_bucket))
       = [HeadObject ''bkt'' ''old/abc'' [], DeleteObjects ''bkt'' [''new/abc'']]
   \<and> sent_by old_bucket
        (snd (add small_pickle swapping_cache ''abc'' scenario_value None old_bucket))
       = [HeadObject ''bkt'' ''old/abc'' []]"
proof -
  note fixed = key_sent_is_prefix_then_key [OF scenario_cache_fake scenario_cache_discreet
      scenario_cache_keywords]
  note moving = key_sent_is_prefix_then_key [OF swapping_cache_fake swapping_cache_discreet
      swapping_cache_keywords]
  let ?e1 = "snd (key_exists scenario_cache ''abc'' empty_bucket)"
  let ?o1 = "snd (key_exists swapping_cache ''abc'' old_bucket)"
  have lit: "key_prefix_attr scenario_cache = Literal ''cache/''"
    by (simp add: scenario_cache_def)
  have call: "key_prefix_attr swapping_cache
        = Callable (\<lambda>w. (Inr (if requests w = [] then ''old/'' else ''new/''), w))
      \<and> (\<lambda>w. (Inr (if requests w = [] then ''old/'' else ''new/''), w)) (world old_bucket)
        = (Inr ''old/'', world old_bucket)"
    by (simp add: swapping_cache_def scenario_cache_def old_bucket_def)
  have kp: "key_prefix scenario_cache empty_bucket = (Inr ''cache/'', empty_bucket)"
    using fixed [THEN conjunct1, THEN mp, OF lit] .
  have kq: "key_prefix swapping_cache old_bucket = (Inr ''old/'', old_bucket)"
    using moving [THEN conjunct2, THEN conjunct1, THEN mp, OF call] by simp
  have dumped: "dump small_pickle scenario_value = Inr ''(dVx|I1|s.''"
    by (simp add: model_defs)
  have "fst (key_exists scenario_cache ''abc'' empty_bucket) = Inr False"
    by (simp add: model_defs)
  then have absent: "key_exists scenario_cache ''abc'' empty_bucket = (Inr False, ?e1)"
    by (simp add: prod_eq_iff)
  have kp1: "key_prefix scenario_cache ?e1 = (Inr ''cache/'', ?e1)"
    by (simp add: key_prefix_def scenario_cache_def)
  have "fst (key_exists swapping_cache ''abc'' old_bucket) = Inr True"
    by (simp add: model_defs swapping_cache_def old_bucket_def)
  then have present: "key_exists swapping_cache ''abc'' old_bucket = (Inr True, ?o1)"
    by (simp add: prod_eq_iff)
  have kq1: "key_prefix swapping_cache ?o1 = (Inr ''new/'', ?o1)"
    by (simp add: model_defs swapping_cache_def old_bucket_def)
  have a: "full_s3_key scenario_cache ''abc'' empty_bucket = (Inr ''cache/abc'', empty_bucket)"
    using fixed [THEN conjunct2, THEN conjunct2, THEN conjunct1, THEN mp, OF kp, of "''abc''"]
    by simp
  note rest = conjunct2 [OF conjunct2 [OF conjunct2]]
  have b: "sent_by empty_bucket
        (snd (set_op small_pickle scenario_cache ''abc'' scenario_value None empty_bucket))
       = [UploadFileobj ''(dVx|I1|s.'' ''bkt'' ''cache/abc'' []]"
    using fixed [THEN rest, THEN conjunct1, THEN mp, OF conjI [OF kp dumped], of "''abc''" None]
    by (simp add: scenario_cache_def)
  have c: "sent_by empty_bucket (snd (get small_pickle scenario_cache ''abc'' empty_bucket))
        = [HeadObject ''bkt'' ''cache/abc'' []]
      \<and> sent_by empty_bucket (snd (delete scenario_cache ''abc'' empty_bucket))
        = [HeadObject ''bkt'' ''cache/abc'' []]"
    using fixed [THEN rest, THEN conjunct2, THEN conjunct1, THEN mp, OF conjI [OF kp absent],
        of small_pickle]
    by (simp add: scenario_cache_def)
  have d: "sent_by old_bucket
        (snd (add small_pickle swapping_cache ''abc'' scenario_value None old_bucket))
       = [HeadObject ''bkt'' ''old/abc'' []]"
    using moving [THEN rest, THEN conjunct2, THEN conjunct2, THEN conjunct1, THEN mp,
        OF conjI [OF kq present], of small_pickle scenario_value None]
    by (simp add: swapping_cache_def scenario_cache_def)
  have e: "sent_by old_bucket (snd (get small_pickle swapping_cache ''abc'' old_bucket))
        = [HeadObject ''bkt'' ''old/abc'' [], DownloadFileobj ''bkt'' ''new/abc'' []]
      \<and> sent_by old_bucket (snd (delete swapping_cache ''abc'' old_bucket))
        = [HeadObject ''bkt'' ''old/abc'' [], DeleteObjects ''bkt'' [''new/abc'']]"
    using moving [THEN rest, THEN conjunct2, THEN conjunct2, THEN conjunct2, THEN conjunct1,
        THEN mp, OF conjI [OF kq conjI [OF present kq1]], of small_pickle]
    by (simp add: swapping_cache_def scenario_cache_def)
  have f: "sent_by empty_bucket
        (snd (add small_pickle scenario_cache ''abc'' scenario_value None empty_bucket))
       = [HeadObject ''bkt'' ''cache/abc'' [],
          UploadFileobj ''(dVx|I1|s.'' ''bkt'' ''cache/abc'' []]"
    using fixed [THEN rest, THEN conjunct2, THEN conjunct2, THEN conjunct2, THEN conjunct2,
        THEN mp, OF conjI [OF kp conjI [OF absent conjI [OF kp1 dumped]]], of None]
    by (simp add: scenario_cache_def)
  from kp kq a b c e d f show ?thesis
    by blast
qed

text \<open>
  With a callable prefix that changes between two evaluations, one \<open>get\<close> sends its two
  requests under two prefixes: the download does not name the prefix the operation began
  with, followed by the key.
\<close>

theorem key_sent_is_prefix_then_key_counterexample:
  "key_prefix swapping_cache old_bucket = (Inr ''old/'', old_bucket)
   \<and> sent_by old_bucket (snd (get small_pickle swapping_cache ''abc'' old_bucket))
       = [HeadObject ''bkt'' ''old/abc'' [], DownloadFileobj ''bkt'' ''new/abc'' []]
   \<and> ''new/abc'' \<noteq> ''old/'' @ ''abc''"
  by (simp add: model_defs swapping_cache_def old_bucket_def)

text \<open>
  C4. When \<open>pickle.dump\<close> raises, \<open>set\<close> raises the same exception and the state is
  untouched; when the payload was produced and the upload raises an \<open>Exception\<close>,
  \<open>set\<close> returns \<open>False\<close>. For every client, key and value.
\<close>

theorem set_dump_raises_upload_returns_false:
  "(dump pk v = Inl e \<longrightarrow> set_op pk self k v t s = (Inl e, s))
   \<and> (dump pk v = Inr d \<and> full_s3_key self k s = (Inr fk, s1)
        \<and> upload_fileobj (s3_client self) d (bucket self) fk (put_extra_args self) (world s1)
            = (Inl (Exception c), w2) \<longrightarrow>
      fst (set_op pk self k v t s) = Inr False)"
  by (simp add: set_op_def except_Exception_def)

theorem set_dump_raises_upload_returns_false_witness:
  "set_op small_pickle scenario_cache ''abc'' (PyObject ''lambda'') None empty_bucket
     = (Inl (Exception ''PicklingError''), empty_bucket)
   \<and> fst (set_op small_pickle scenario_cache ''abc'' scenario_value None flaky_bucket) = Inr False"
proof -
  have hard: "dump small_pickle (PyObject ''lambda'') = Inl (Exception ''PicklingError'')"
    by (simp add: model_defs flaky_bucket_def)
  have soft: "dump small_pickle scenario_value = Inr ''(dVx|I1|s.''
      \<and> full_s3_key scenario_cache ''abc'' flaky_bucket = (Inr ''cache/abc'', flaky_bucket)
      \<and> upload_fileobj (s3_client scenario_cache) ''(dVx|I1|s.'' (bucket scenario_cache)
            ''cache/abc'' (put_extra_args scenario_cache) (world flaky_bucket)
          = (Inl (Exception ''EndpointConnectionError''),
             \<lparr>objects = Map.empty, faults = [],
              requests = [UploadFileobj ''(dVx|I1|s.'' ''bkt'' ''cache/abc'' []]\<rparr>)"
    by (simp add: model_defs flaky_bucket_def)
  have a: "set_op small_pickle scenario_cache ''abc'' (PyObject ''lambda'') None empty_bucket
     = (Inl (Exception ''PicklingError''), empty_bucket)"
    using set_dump_raises_upload_returns_false [THEN conjunct1, THEN mp, OF hard] .
  have b: "fst (set_op small_pickle scenario_cache ''abc'' scenario_value None flaky_bucket) = Inr False"
    using set_dump_raises_upload_returns_false [THEN conjunct2, THEN mp, OF soft] .
  from a b show ?thesis by (rule conjI)
qed

text \<open>
  C5. Whatever \<open>Exception\<close> the head call raises, the probe returns \<open>False\<close>; then
  \<open>get\<close> returns \<open>None\<close>, \<open>delete\<close> returns \<open>False\<close> and \<open>add\<close> goes on to
  \<open>set\<close>, each from the state the head call left. The class of the exception appears
  nowhere in the outcome. For every client.
\<close>

theorem probe_error_reads_as_absent:
  assumes "full_s3_key self k s = (Inr fk, s1)"
    and "\<not> repeats_keyword (head_extra_args self)"
    and "head_object (s3_client self) (bucket self) fk (head_extra_args self) (world s1)
           = (Inl (Exception c), w2)"
  shows "key_exists self k s = (Inr False, s1\<lparr>world := w2\<rparr>)
       \<and> get pk self k s = (Inr PyNone, s1\<lparr>world := w2\<rparr>)
       \<and> delete self k s = (Inr False, s1\<lparr>world := w2\<rparr>)
       \<and> add pk self k v t s = set_op pk self k v t (s1\<lparr>world := w2\<rparr>)"
proof -
  have probe: "key_exists self k s = (Inr False, s1\<lparr>world := w2\<rparr>)"
    using assms by (simp add: key_exists_def)
  then show ?thesis
    by (simp add: get_def delete_def add_def)
qed

theorem probe_error_reads_as_absent_witness:
  "objects (world unreachable_bucket) (''bkt'', ''cache/abc'') = Some ''N.''
   \<and> key_exists scenario_cache ''abc'' unreachable_bucket = (Inr False, probed_bucket)
   \<and> get small_pickle scenario_cache ''abc'' unreachable_bucket = (Inr PyNone, probed_bucket)
   \<and> delete scenario_cache ''abc'' unreachable_bucket = (Inr False, probed_bucket)
   \<and> add small_pickle scenario_cache ''abc'' (PyStr ''second'') None unreachable_bucket
       = set_op small_pickle scenario_cache ''abc'' (PyStr ''second'') None probed_bucket"
proof -
  have stored: "objects (world unreachable_bucket) (''bkt'', ''cache/abc'') = Some ''N.''"
    by (simp add: model_defs unreachable_bucket_def probed_bucket_def)
  have key: "full_s3_key scenario_cache ''abc'' unreachable_bucket
      = (Inr ''cache/abc'', unreachable_bucket)"
    by (simp add: model_defs unreachable_bucket_def probed_bucket_def)
  have head: "head_object (s3_client scenario_cache) (bucket scenario_cache) ''cache/abc''
        (head_extra_args scenario_cache) (world unreachable_bucket)
      = (Inl (Exception ''EndpointConnectionError''), world probed_bucket)"
    by (simp add: model_defs unreachable_bucket_def probed_bucket_def)
  have same: "unreachable_bucket\<lparr>world := world probed_bucket\<rparr> = probed_bucket"
    by (simp add: model_defs unreachable_bucket_def probed_bucket_def)
  from stored
    probe_error_reads_as_absent [OF key scenario_cache_keywords head,
      of small_pickle "PyStr ''second''" None]
  show ?thesis
    by (simp only: same)
qed

text \<open>
  C6. For a key with no object in the bucket, \<open>get\<close> returns \<open>None\<close> and \<open>delete\<close>
  returns \<open>False\<close>. After a \<open>set\<close> that returned \<open>True\<close>, \<open>delete\<close> returns
  \<open>True\<close> and the \<open>get\<close> that follows returns \<open>None\<close>. Stated over the fake client
  with the prefix the same at every evaluation and no fault on the calls made.
\<close>

theorem miss_and_delete:
  assumes "s3_client self = fake_client"
    and "stable_prefix self p"
    and "\<not> repeats_keyword (head_extra_args self)"
  shows "(objects (world s) (bucket self, p @ k) = None \<and> quiet 1 (world s) \<longrightarrow>
            fst (get pk self k s) = Inr PyNone \<and> fst (delete self k s) = Inr False)
       \<and> (set_op pk self k v t s = (Inr True, s1) \<and> quiet 3 (world s1) \<longrightarrow>
            (\<exists>s2. delete self k s1 = (Inr True, s2) \<and> fst (get pk self k s2) = Inr PyNone))"
proof (intro conjI impI)
  assume a: "objects (world s) (bucket self, p @ k) = None \<and> quiet 1 (world s)"
  then have q: "quiet (Suc 0) (world s)" by simp
  show "fst (get pk self k s) = Inr PyNone"
    using assms q a by (simp add: get_fake_absent)
  show "fst (delete self k s) = Inr False"
    using assms q a by (simp add: delete_fake_absent)
next
  assume a: "set_op pk self k v t s = (Inr True, s1) \<and> quiet 3 (world s1)"
  then obtain d where d: "objects (world s1) (bucket self, p @ k) = Some d"
    using set_op_fake_True [OF assms(1,2)] by blast
  have q3: "quiet (Suc (Suc (Suc 0))) (world s1)"
    using a by (simp add: numeral_3_eq_3)
  obtain s2 where s2: "delete self k s1 = (Inr True, s2)"
      "objects (world s2) (bucket self, p @ k) = None" "quiet (Suc 0) (world s2)"
    using delete_fake_present [OF assms q3 d] by blast
  have "fst (get pk self k s2) = Inr PyNone"
    using assms s2(3) s2(2) by (rule get_fake_absent)
  with s2(1) show "\<exists>s2. delete self k s1 = (Inr True, s2) \<and> fst (get pk self k s2) = Inr PyNone"
    by blast
qed

theorem miss_and_delete_witness:
  "fst (get small_pickle scenario_cache ''abc'' empty_bucket) = Inr PyNone
   \<and> fst (delete scenario_cache ''abc'' empty_bucket) = Inr False
   \<and> fst (set_op small_pickle scenario_cache ''abc'' scenario_value None empty_bucket) = Inr True
   \<and> (\<exists>s2. delete scenario_cache ''abc'' after_set = (Inr True, s2)
          \<and> fst (get small_pickle scenario_cache ''abc'' s2) = Inr PyNone)"
proof -
  note inst = miss_and_delete [OF scenario_cache_fake scenario_cache_prefix scenario_cache_keywords]
  have absent: "objects (world empty_bucket) (bucket scenario_cache, ''cache/'' @ ''abc'') = None
      \<and> quiet 1 (world empty_bucket)"
    by (simp add: model_defs)
  have ok: "fst (set_op small_pickle scenario_cache ''abc'' scenario_value None empty_bucket) = Inr True"
    by (simp add: model_defs)
  then have stored: "set_op small_pickle scenario_cache ''abc'' scenario_value None empty_bucket
      = (Inr True, after_set)"
    by (simp add: prod_eq_iff after_set_def)
  have q: "quiet 3 (world after_set)"
    by (simp add: model_defs)
  have a: "fst (get small_pickle scenario_cache ''abc'' empty_bucket) = Inr PyNone
      \<and> fst (delete scenario_cache ''abc'' empty_bucket) = Inr False"
    using inst [THEN conjunct1, THEN mp, OF absent] .
  have b: "\<exists>s2. delete scenario_cache ''abc'' after_set = (Inr True, s2)
          \<and> fst (get small_pickle scenario_cache ''abc'' s2) = Inr PyNone"
    using inst [THEN conjunct2, THEN mp, OF conjI [OF stored q]] .
  from a ok b show ?thesis by blast
qed

text \<open>
  C7. Once the probe has succeeded, \<open>get\<close> is to return \<open>None\<close> when the download or
  the decoding fails. For a download that raises it does (\<open>get_download_error_is_miss\<close>).
  For a payload that does not decode it does not: \<open>pickle.load\<close> runs in the \<^verbatim>\<open>else\<close>
  suite of the \<^verbatim>\<open>try\<close>, which the \<^verbatim>\<open>except\<close> clause does not cover
  (\<open>get_load_error_raises\<close>). On a bucket whose object \<open>cache/abc\<close> pickle did not
  write, the probe succeeds and \<open>get\<close> raises.
\<close>

theorem get_raises_on_foreign_payload:
  "fst (key_exists scenario_cache ''abc'' foreign_bucket) = Inr True
   \<and> fst (get small_pickle scenario_cache ''abc'' foreign_bucket) = Inl (Exception ''UnpicklingError'')"
  by (simp add: model_defs foreign_bucket_def)

text \<open>
  C8. \<open>clear\<close> returns \<open>False\<close> and leaves the state as it was: on the fake client no
  request is sent and no object changes.
\<close>

theorem clear_returns_false:
  "clear self s = (Inr False, s)
   \<and> sent_by b (snd (clear c b)) = []
   \<and> objects (world (snd (clear c b))) = objects (world b)"
  by (simp add: clear_def sent_by_def)

text \<open>
  C9. The outcome and the final state of \<open>set\<close> and of \<open>add\<close> are the same for any
  two values of the argument \<open>timeout\<close>.
\<close>

theorem timeout_has_no_effect:
  "set_op pk self k v t1 s = set_op pk self k v t2 s
   \<and> add pk self k v t1 s = add pk self k v t2 s"
proof -
  have "set_op pk self k v t1 s' = set_op pk self k v t2 s'" for s'
    by (simp add: set_op_def)
  then show ?thesis
    by (simp add: add_def split: prod.splits sum.splits)
qed

text \<open>
  C10. \<open>set\<close> of the value \<open>None\<close> returns \<open>True\<close> and leaves an object in the
  bucket, the payload of \<open>None\<close>; \<open>get\<close> of that key returns \<open>None\<close>, which is also
  what \<open>get\<close> returns for another key that has no object. The pickle module is any one that
  dumps \<open>None\<close> to a payload it loads back to \<open>None\<close>.
\<close>

theorem stored_none_reads_as_miss:
  assumes "s3_client self = fake_client"
    and "stable_prefix self p"
    and "\<not> repeats_keyword (head_extra_args self)"
    and "dump pk PyNone = Inr d"
    and "load pk d = Inr PyNone"
    and "quiet 3 (world s)"
    and "objects (world s) (bucket self, p @ k') = None"
    and "k' \<noteq> k"
  shows "\<exists>s1. set_op pk self k PyNone t s = (Inr True, s1)
           \<and> objects (world s1) (bucket self, p @ k) = Some d
           \<and> objects (world s1) (bucket self, p @ k') = None
           \<and> fst (get pk self k s1) = Inr PyNone
           \<and> fst (get pk self k' s1) = Inr PyNone"
proof -
  have q3: "quiet (Suc (Suc (Suc 0))) (world s)"
    using assms(6) by (simp add: numeral_3_eq_3)
  obtain s1 where s1: "set_op pk self k PyNone t s = (Inr True, s1)"
      "objects (world s1) = (objects (world s))((bucket self, p @ k) \<mapsto> d)"
      "quiet (Suc (Suc 0)) (world s1)"
    using set_op_fake_quiet [OF assms(1,2) q3 assms(4)] by blast
  have hit: "objects (world s1) (bucket self, p @ k) = Some d"
    using s1(2) by simp
  have miss: "objects (world s1) (bucket self, p @ k') = None"
    using s1(2) assms(7,8) by simp
  have "fst (get pk self k s1) = load pk d"
    using assms(1,2,3) s1(3) hit by (rule get_fake_present)
  moreover have "fst (get pk self k' s1) = Inr PyNone"
    using assms(1,2,3) s1(3) miss by (rule get_fake_absent)
  ultimately show ?thesis
    using s1(1) hit miss assms(5) by simp
qed

theorem stored_none_reads_as_miss_witness:
  "\<exists>s1. set_op small_pickle scenario_cache ''abc'' PyNone None empty_bucket = (Inr True, s1)
      \<and> objects (world s1) (''bkt'', ''cache/abc'') = Some ''N.''
      \<and> objects (world s1) (''bkt'', ''cache/xyz'') = None
      \<and> fst (get small_pickle scenario_cache ''abc'' s1) = Inr PyNone
      \<and> fst (get small_pickle scenario_cache ''xyz'' s1) = Inr PyNone"
proof -
  have d: "dump small_pickle PyNone = Inr ''N.''"
    by (simp add: model_defs)
  have l: "load small_pickle ''N.'' = Inr PyNone"
    by (simp add: model_defs)
  have q: "quiet 3 (world empty_bucket)"
    by (simp add: model_defs)
  have absent: "objects (world empty_bucket) (bucket scenario_cache, ''cache/'' @ ''xyz'') = None"
    by (simp add: model_defs)
  have ne: "''xyz'' \<noteq> ''abc''"
    by simp
  show ?thesis
    using stored_none_reads_as_miss [OF scenario_cache_fake scenario_cache_prefix
        scenario_cache_keywords d l q absent ne, of None]
    by (simp add: scenario_cache_def)
qed

end
